theory Spec2Isabelle
  imports Main "HOL-Library.Word" "HOL-Library.Multiset"
begin

unbundle bit_operations_syntax

section \<open>Scaffolder action helpers: repository URLs, Octokit options, directory snapshots\<close>

text \<open>
  A shallow embedding of \<^verbatim>\<open>packages/backend/src/plugins/scaffolder/actions/helpers.ts\<close>.
  Every function keeps the name it has in the source. What the source takes from its
  platform or from other packages (the \<^verbatim>\<open>URL\<close> constructor, \<^verbatim>\<open>encodeURIComponent\<close>, the
  integrations registry, the credentials provider, \<^verbatim>\<open>globby\<close>, \<^verbatim>\<open>resolveSafeChildPath\<close> and the
  \<^verbatim>\<open>fs\<close> promises) is a parameter of the model, so every theorem holds for any behaviour of
  these collaborators that meets the stated hypotheses.
\<close>

subsection \<open>Thrown values\<close>

text \<open>
  A \<^verbatim>\<open>throw\<close> or a rejected promise is the left summand of \<open>error + 'a\<close>. The constructors are
  the kinds of value the source throws or catches: \<^verbatim>\<open>InputError\<close> (with its message),
  \<^verbatim>\<open>NotAllowedError\<close> (what \<^verbatim>\<open>resolveSafeChildPath\<close> throws, with its message), a Node system
  error carrying its \<^verbatim>\<open>code\<close> (\<^verbatim>\<open>ENOENT\<close>, \<^verbatim>\<open>EACCES\<close>, ...), any other \<^verbatim>\<open>Error\<close> object (no
  \<^verbatim>\<open>code\<close>), and a thrown value that is not shaped like an error at all.
\<close>

datatype error =
    InputError string
  | NotAllowedError string
  | SystemError string
  | PlainError string
  | NonError

text \<open>\<^verbatim>\<open>isError\<close> of \<^verbatim>\<open>@backstage/errors\<close>: an object with a name and a message.\<close>

fun isError :: "error \<Rightarrow> bool" where
  "isError NonError = False"
| "isError _ = True"

text \<open>The property \<^verbatim>\<open>e.code\<close>; only system errors define it.\<close>

fun code :: "error \<Rightarrow> string option" where
  "code (SystemError c) = Some c"
| "code _ = None"

text \<open>
  JavaScript's \<^verbatim>\<open>!v\<close> on a value of type \<^verbatim>\<open>string | null | undefined\<close>: true for a missing
  value and for the empty string.
\<close>

definition falsy :: "string option \<Rightarrow> bool" where
  "falsy v = (case v of None \<Rightarrow> True | Some s \<Rightarrow> s = [])"

subsection \<open>Data model\<close>

text \<open>
  The part of a parsed \<^verbatim>\<open>URL\<close> object the helpers read: \<^verbatim>\<open>host\<close>, the query parameters in
  the order of the query string, and the serialisation \<^verbatim>\<open>toString()\<close> returns.
\<close>

record url =
  host :: string
  searchParams :: "(string \<times> string) list"
  href :: string

text \<open>\<^verbatim>\<open>searchParams.get(name)\<close>: the value of the first pair with that name, else \<^verbatim>\<open>null\<close>.\<close>

definition searchParams_get :: "url \<Rightarrow> string \<Rightarrow> string option" where
  "searchParams_get u name = map_of (searchParams u) name"

text \<open>
  \<^verbatim>\<open>RepoSpec\<close>. The type declares \<^verbatim>\<open>repo\<close> a string, but the value stored is
  \<^verbatim>\<open>searchParams.get('repo')!\<close>, whose non-null assertion is erased at run time: the field
  holds \<^verbatim>\<open>null\<close> when the parameter is missing, hence the option.
\<close>

record RepoSpec =
  repo :: "string option"
  host :: string
  owner :: "string option"
  organization :: "string option"
  workspace :: "string option"
  project :: "string option"

text \<open>
  The two lookups the helpers make in the \<^verbatim>\<open>ScmIntegrationRegistry\<close>:
  \<^verbatim>\<open>integrations.byHost(host)?.type\<close> and \<^verbatim>\<open>integrations.github.byHost(host)?.config\<close>.
\<close>

record GithubIntegrationConfig =
  apiBaseUrl :: "string option"

record ScmIntegrationRegistry =
  byHost :: "string \<Rightarrow> string option"
  github_byHost :: "string \<Rightarrow> GithubIntegrationConfig option"

subsection \<open>parseRepoUrl\<close>

fun checkRequiredParams :: "url \<Rightarrow> string list \<Rightarrow> error + unit" where
  "checkRequiredParams repoUrl [] = Inr ()"
| "checkRequiredParams repoUrl (p # params) =
     (if falsy (searchParams_get repoUrl p)
      then Inl (InputError
        (''Invalid repo URL passed to publisher: '' @ href repoUrl @ '', missing '' @ p))
      else checkRequiredParams repoUrl params)"

text \<open>
  The first argument is the \<^verbatim>\<open>URL\<close> constructor: \<open>Inl\<close> the text of the \<^verbatim>\<open>TypeError\<close> it
  throws on a string that is no URL, \<open>Inr\<close> the parsed object otherwise.
\<close>

definition parseRepoUrl ::
  "(string \<Rightarrow> string + url) \<Rightarrow> string \<Rightarrow> ScmIntegrationRegistry \<Rightarrow> error + RepoSpec" where
  "parseRepoUrl URL_new repoUrl integrations =
     (case URL_new (''https://'' @ repoUrl) of
        Inl err \<Rightarrow>
          Inl (InputError
            (''Invalid repo URL passed to publisher, got '' @ repoUrl @ '', '' @ err))
      | Inr parsed \<Rightarrow>
          (let h = url.host parsed;
               own = searchParams_get parsed ''owner'';
               org = searchParams_get parsed ''organization'';
               ws = searchParams_get parsed ''workspace'';
               proj = searchParams_get parsed ''project'';
               ty = byHost integrations h
           in if falsy ty
              then Inl (InputError
                (''No matching integration configuration for host '' @ h @
                 '', please check your integrations config''))
              else
                (let rp = searchParams_get parsed ''repo'';
                     checked =
                       (if ty = Some ''bitbucket'' then
                          (case (if h = ''www.bitbucket.org''
                                 then checkRequiredParams parsed [''workspace'']
                                 else Inr ()) of
                             Inl e \<Rightarrow> Inl e
                           | Inr _ \<Rightarrow> checkRequiredParams parsed [''project'', ''repo''])
                        else if ty = Some ''gitlab'' then
                          (if falsy proj
                           then checkRequiredParams parsed [''owner'', ''repo'']
                           else Inr ())
                        else if ty = Some ''gerrit'' then
                          checkRequiredParams parsed [''repo'']
                        else checkRequiredParams parsed [''repo'', ''owner''])
                 in case checked of
                      Inl e \<Rightarrow> Inl e
                    | Inr _ \<Rightarrow>
                        Inr \<lparr>repo = rp, host = h, owner = own, organization = org,
                             workspace = ws, project = proj\<rparr>)))"

subsection \<open>isExecutable\<close>

text \<open>
  \<^verbatim>\<open>fileMode\<close> is \<^verbatim>\<open>number | undefined\<close>; a file mode is an integer, and \<^verbatim>\<open>&\<close> with the mask
  \<^verbatim>\<open>0o111 = 73\<close> reads the low seven bits of its two's complement form only, which is what
  \<open>AND\<close> on \<open>int\<close> does. \<^verbatim>\<open>!fileMode\<close> holds for \<^verbatim>\<open>undefined\<close> and for 0.
\<close>

definition isExecutable :: "int option \<Rightarrow> bool" where
  "isExecutable fileMode =
     (case fileMode of
        None \<Rightarrow> False
      | Some m \<Rightarrow>
          if m = 0 then False
          else (let executeBitMask = 73; res = m AND executeBitMask in res > 0))"

subsection \<open>getOctokitOptions\<close>

definition DEFAULT_TIMEOUT_MS :: nat where
  "DEFAULT_TIMEOUT_MS = 60000"

record RequestOptions =
  timeout :: nat

record OctokitOptions =
  auth :: string
  baseUrl :: "string option"
  previews :: "string list"
  request :: "RequestOptions option"

text \<open>
  \<^verbatim>\<open>GithubCredentialsProvider.getCredentials({url})\<close>: the promise rejects (\<open>Inl\<close>) or resolves
  to an object whose \<^verbatim>\<open>token\<close> may be undefined.
\<close>

type_synonym GithubCredentialsProvider = "string \<Rightarrow> error + string option"

record GetOctokitOptionsArgs =
  integrations :: ScmIntegrationRegistry
  credentialsProvider :: "GithubCredentialsProvider option"
  token :: "string option"
  repoUrl :: string

text \<open>
  The leading arguments are the \<^verbatim>\<open>URL\<close> constructor, \<^verbatim>\<open>encodeURIComponent\<close> and
  \<^verbatim>\<open>DefaultGithubCredentialsProvider.fromIntegrations\<close>. The result pairs what the promise
  settles to with the list of URLs for which a credentials provider was asked, in order:
  the empty list says that no provider was consulted. \<^verbatim>\<open>encodeURIComponent(repo)\<close> on a
  \<^verbatim>\<open>null\<close> repo encodes the string \<^verbatim>\<open>null\<close>.
\<close>

definition getOctokitOptions ::
  "(string \<Rightarrow> string + url) \<Rightarrow> (string \<Rightarrow> string) \<Rightarrow>
   (ScmIntegrationRegistry \<Rightarrow> GithubCredentialsProvider) \<Rightarrow>
   GetOctokitOptionsArgs \<Rightarrow> (error + OctokitOptions) \<times> string list" where
  "getOctokitOptions URL_new encodeURIComponent fromIntegrations options =
     (case parseRepoUrl URL_new (repoUrl options) (integrations options) of
        Inl e \<Rightarrow> (Inl e, [])
      | Inr spec \<Rightarrow>
          (let requestOptions = \<lparr>timeout = DEFAULT_TIMEOUT_MS\<rparr>;
               h = RepoSpec.host spec
           in if falsy (owner spec)
              then (Inl (InputError (''No owner provided for repo '' @ repoUrl options)), [])
              else
                (case github_byHost (integrations options) h of
                   None \<Rightarrow> (Inl (InputError (''No integration for host '' @ h)), [])
                 | Some integrationConfig \<Rightarrow>
                     if \<not> falsy (token options)
                     then (Inr \<lparr>auth = (case token options of Some t \<Rightarrow> t | None \<Rightarrow> []),
                                baseUrl = apiBaseUrl integrationConfig,
                                previews = [''nebula-preview''],
                                request = Some requestOptions\<rparr>, [])
                     else
                       (let githubCredentialsProvider =
                              (case credentialsProvider options of
                                 Some p \<Rightarrow> p
                               | None \<Rightarrow> fromIntegrations (integrations options));
                            own = (case owner spec of Some s \<Rightarrow> s | None \<Rightarrow> []);
                            rp = (case repo spec of Some s \<Rightarrow> s | None \<Rightarrow> ''null'');
                            target = ''https://'' @ h @ ''/'' @ encodeURIComponent own @
                                     ''/'' @ encodeURIComponent rp
                        in case githubCredentialsProvider target of
                             Inl e \<Rightarrow> (Inl e, [target])
                           | Inr credentialProviderToken \<Rightarrow>
                               if falsy credentialProviderToken
                               then (Inl (InputError
                                      (''No token available for host: '' @ h @
                                       '', with owner '' @ own @ '', and repo '' @ rp)),
                                     [target])
                               else (Inr \<lparr>auth = (case credentialProviderToken of
                                                    Some t \<Rightarrow> t | None \<Rightarrow> []),
                                          baseUrl = apiBaseUrl integrationConfig,
                                          previews = [''nebula-preview''],
                                          request = None\<rparr>, [target])))))"

subsection \<open>serializeDirectoryContents\<close>

text \<open>
  A \<^verbatim>\<open>Dirent\<close> answers \<^verbatim>\<open>isDirectory()\<close> and \<^verbatim>\<open>isSymbolicLink()\<close>; the last constructor
  stands for the remaining kinds (FIFO, socket, device).
\<close>

datatype Dirent = RegularFile | Directory | SymbolicLink | OtherEntry

definition isDirectory :: "Dirent \<Rightarrow> bool" where
  "isDirectory d = (d = Directory)"

definition isSymbolicLink :: "Dirent \<Rightarrow> bool" where
  "isSymbolicLink d = (d = SymbolicLink)"

record Stats =
  mode :: int

record GlobbyOptions =
  cwd :: string
  dot :: bool
  gitignore :: "bool option"
  followSymbolicLinks :: bool
  onlyFiles :: bool
  objectMode :: bool
  stats :: bool

record SerializeOptions =
  gitignore :: "bool option"
  globPatterns :: "string list option"

text \<open>An entry of \<^verbatim>\<open>globby\<close>'s result in object mode.\<close>

record Entry =
  dirent :: Dirent
  path :: string
  stats :: "Stats option"

text \<open>\<^verbatim>\<open>SerializedFile\<close>; \<^verbatim>\<open>content\<close> is a \<^verbatim>\<open>Buffer\<close>, a list of bytes.\<close>

record SerializedFile =
  path :: string
  content :: "8 word list"
  executable :: bool
  symlink :: bool

text \<open>
  The file system as the function sees it, through its collaborators: the glob walk,
  \<^verbatim>\<open>resolveSafeChildPath(base, path)\<close> (which throws when the path leaves the base),
  \<^verbatim>\<open>fs.stat\<close> (which follows links), \<^verbatim>\<open>fs.readlink\<close> and \<^verbatim>\<open>fs.readFile\<close>. An unchanged tree
  is one record of these functions.
\<close>

record FileSystem =
  globby :: "string list \<Rightarrow> GlobbyOptions \<Rightarrow> error + Entry list"
  resolveSafeChildPath :: "string \<Rightarrow> string \<Rightarrow> error + string"
  fs_stat :: "string \<Rightarrow> error + Stats"
  fs_readlink :: "string \<Rightarrow> error + 8 word list"
  fs_readFile :: "string \<Rightarrow> error + 8 word list"

definition DEFAULT_GLOB_PATTERNS :: "string list" where
  "DEFAULT_GLOB_PATTERNS = [''./**'', ''!.git'']"

text \<open>
  \<^verbatim>\<open>Promise.all\<close> over promises whose outcomes the file system determines: when none
  rejects, all the values in the order of the input; otherwise the rejection that is
  observed first. Which one that is depends on the timing of the run, so the first argument
  chooses among the rejections (listed in the order of the input).
\<close>

fun rejections :: "(error + 'a) list \<Rightarrow> error list" where
  "rejections [] = []"
| "rejections (Inl e # ps) = e # rejections ps"
| "rejections (Inr v # ps) = rejections ps"

fun fulfilments :: "(error + 'a) list \<Rightarrow> 'a list" where
  "fulfilments [] = []"
| "fulfilments (Inl e # ps) = fulfilments ps"
| "fulfilments (Inr v # ps) = v # fulfilments ps"

definition Promise_all :: "(error list \<Rightarrow> error) \<Rightarrow> (error + 'a) list \<Rightarrow> error + 'a list" where
  "Promise_all firstRejection promises =
     (case rejections promises of
        [] \<Rightarrow> Inr (fulfilments promises)
      | e # es \<Rightarrow> Inl (firstRejection (e # es)))"


text \<open>The callback of the source also receives the index and the array; no caller reads them.\<close>

definition asyncFilter ::
  "(error list \<Rightarrow> error) \<Rightarrow> 'a list \<Rightarrow> ('a \<Rightarrow> error + bool) \<Rightarrow> error + 'a list" where
  "asyncFilter firstRejection array callback =
     (case Promise_all firstRejection (map callback array) of
        Inl e \<Rightarrow> Inl e
      | Inr filterMap \<Rightarrow>
          Inr (map (\<lambda>index. array ! index)
                 (filter (\<lambda>index. filterMap ! index) [0..<length array])))"

text \<open>
  The limiter of \<^verbatim>\<open>p-limit\<close> decides when a task starts, never what it returns: on results
  it is the identity.
\<close>

definition limiter :: "(unit \<Rightarrow> error + 'a) \<Rightarrow> error + 'a" where
  "limiter task = task ()"

text \<open>The callback given to \<^verbatim>\<open>asyncFilter\<close> (an anonymous function in the source).\<close>

definition validEntry :: "FileSystem \<Rightarrow> string \<Rightarrow> Entry \<Rightarrow> error + bool" where
  "validEntry fs sourcePath entry =
     (if isDirectory (dirent entry) then Inr False
      else if \<not> isSymbolicLink (dirent entry) then Inr True
      else
        (case resolveSafeChildPath fs sourcePath (Entry.path entry) of
           Inl e \<Rightarrow> Inl e
         | Inr safePath \<Rightarrow>
             (case fs_stat fs safePath of
                Inr _ \<Rightarrow> Inr False
              | Inl e \<Rightarrow> Inr (isError e \<and> code e = Some ''ENOENT''))))"

text \<open>The callback mapped over the valid entries (an anonymous function in the source).\<close>

definition serializeEntry :: "FileSystem \<Rightarrow> string \<Rightarrow> Entry \<Rightarrow> error + SerializedFile" where
  "serializeEntry fs sourcePath entry =
     (case limiter (\<lambda>_.
             (case resolveSafeChildPath fs sourcePath (Entry.path entry) of
                Inl e \<Rightarrow> Inl e
              | Inr absFilePath \<Rightarrow>
                  if isSymbolicLink (dirent entry) then fs_readlink fs absFilePath
                  else fs_readFile fs absFilePath)) of
        Inl e \<Rightarrow> Inl e
      | Inr bytes \<Rightarrow>
          Inr \<lparr>path = Entry.path entry,
               content = bytes,
               executable = isExecutable (map_option mode (Entry.stats entry)),
               symlink = isSymbolicLink (dirent entry)\<rparr>)"

text \<open>The call of \<^verbatim>\<open>globby\<close> the function makes.\<close>

definition globbed :: "FileSystem \<Rightarrow> string \<Rightarrow> SerializeOptions option \<Rightarrow> error + Entry list" where
  "globbed fs sourcePath options =
     globby fs
       (case Option.bind options globPatterns of
          Some ps \<Rightarrow> ps
        | None \<Rightarrow> DEFAULT_GLOB_PATTERNS)
       \<lparr>cwd = sourcePath, dot = True,
        GlobbyOptions.gitignore = Option.bind options SerializeOptions.gitignore,
        followSymbolicLinks = False, onlyFiles = False, objectMode = True,
        GlobbyOptions.stats = True\<rparr>"

text \<open>The first argument is the timing of the run (see \<open>Promise_all\<close>).\<close>

definition serializeDirectoryContents ::
  "(error list \<Rightarrow> error) \<Rightarrow> FileSystem \<Rightarrow> string \<Rightarrow> SerializeOptions option \<Rightarrow>
   error + SerializedFile list" where
  "serializeDirectoryContents firstRejection fs sourcePath options =
     (case globbed fs sourcePath options of
        Inl e \<Rightarrow> Inl e
      | Inr paths \<Rightarrow>
          (case asyncFilter firstRejection paths (validEntry fs sourcePath) of
             Inl e \<Rightarrow> Inl e
           | Inr valid \<Rightarrow>
               Promise_all firstRejection (map (serializeEntry fs sourcePath) valid)))"

section \<open>The specification's vocabulary\<close>

text \<open>
  A query parameter is present when \<^verbatim>\<open>searchParams.get\<close> gives a non-empty string; a
  parameter given with an empty value counts as missing, as the error message of
  \<open>checkRequiredParams\<close> calls it.
\<close>

definition present :: "url \<Rightarrow> string \<Rightarrow> bool" where
  "present u name = (case searchParams_get u name of None \<Rightarrow> False | Some v \<Rightarrow> v \<noteq> [])"

text \<open>
  The mandatory parameters, as the specification lists them by provider type: bitbucket
  needs project and repo, and workspace too on the public Bitbucket host; gitlab needs
  owner and repo unless project is present; gerrit needs repo; any other provider needs
  repo and owner.
\<close>

definition mandatoryParams :: "string \<Rightarrow> url \<Rightarrow> string list" where
  "mandatoryParams providerType u =
     (if providerType = ''bitbucket'' then
        (if url.host u = ''www.bitbucket.org'' then [''workspace''] else []) @
        [''project'', ''repo'']
      else if providerType = ''gitlab'' then
        (if present u ''project'' then [] else [''owner'', ''repo''])
      else if providerType = ''gerrit'' then [''repo'']
      else [''repo'', ''owner''])"

text \<open>
  The target of the link at a path is absent when \<^verbatim>\<open>stat\<close>, which follows the link, fails
  with \<^verbatim>\<open>ENOENT\<close>, and it exists when \<^verbatim>\<open>stat\<close> succeeds.
\<close>

definition targetAbsent :: "FileSystem \<Rightarrow> string \<Rightarrow> bool" where
  "targetAbsent fs p =
     (case fs_stat fs p of Inl e \<Rightarrow> isError e \<and> code e = Some ''ENOENT'' | Inr _ \<Rightarrow> False)"

definition targetExists :: "FileSystem \<Rightarrow> string \<Rightarrow> bool" where
  "targetExists fs p = (case fs_stat fs p of Inl _ \<Rightarrow> False | Inr _ \<Rightarrow> True)"

text \<open>
  The entries the specification keeps: no directory, every entry that is not a symbolic
  link, and a symbolic link only when it dangles.
\<close>

definition retained :: "FileSystem \<Rightarrow> string \<Rightarrow> Entry \<Rightarrow> bool" where
  "retained fs sourcePath e =
     (if isDirectory (dirent e) then False
      else if isSymbolicLink (dirent e) then
        (case resolveSafeChildPath fs sourcePath (Entry.path e) of
           Inl _ \<Rightarrow> False
         | Inr p \<Rightarrow> targetAbsent fs p)
      else True)"

text \<open>
  What is read for an entry: the raw target of a symbolic link, the content of anything
  else, at the safe path of the entry.
\<close>

definition bytesOf :: "FileSystem \<Rightarrow> string \<Rightarrow> Entry \<Rightarrow> error + 8 word list" where
  "bytesOf fs sourcePath e =
     (case resolveSafeChildPath fs sourcePath (Entry.path e) of
        Inl err \<Rightarrow> Inl err
      | Inr p \<Rightarrow> if isSymbolicLink (dirent e) then fs_readlink fs p else fs_readFile fs p)"

text \<open>The record expected for an entry whose bytes can be read.\<close>

definition recordOf :: "FileSystem \<Rightarrow> string \<Rightarrow> Entry \<Rightarrow> SerializedFile" where
  "recordOf fs sourcePath e =
     \<lparr>path = Entry.path e,
      content = (case bytesOf fs sourcePath e of Inl _ \<Rightarrow> [] | Inr bytes \<Rightarrow> bytes),
      executable = isExecutable (map_option mode (Entry.stats e)),
      symlink = isSymbolicLink (dirent e)\<rparr>"

section \<open>Test doubles\<close>

text \<open>
  Concrete collaborators, on which the theorems below are instantiated. \<open>URL_simple\<close>
  stands in for the \<^verbatim>\<open>URL\<close> constructor on strings of the shape
  \<^verbatim>\<open>https://host?name=value&name=value\<close> written without escapes, path, port or fragment;
  its \<open>href\<close> has the slash the real serialisation puts after the host.
\<close>

fun splitOn :: "char \<Rightarrow> string \<Rightarrow> string list" where
  "splitOn c [] = [[]]"
| "splitOn c (x # xs) =
     (if x = c then [] # splitOn c xs
      else (case splitOn c xs of [] \<Rightarrow> [[x]] | w # ws \<Rightarrow> (x # w) # ws))"

definition keyValue :: "string \<Rightarrow> string \<times> string" where
  "keyValue s =
     (takeWhile (\<lambda>c. c \<noteq> CHR ''='') s, drop 1 (dropWhile (\<lambda>c. c \<noteq> CHR ''='') s))"

definition URL_simple :: "string \<Rightarrow> string + url" where
  "URL_simple s =
     (let rest = drop 8 s;
          h = takeWhile (\<lambda>c. c \<noteq> CHR ''?'') rest;
          q = drop 1 (dropWhile (\<lambda>c. c \<noteq> CHR ''?'') rest)
      in if take 8 s = ''https://'' \<and> h \<noteq> []
         then Inr \<lparr>url.host = h,
                   searchParams = map keyValue (filter (\<lambda>w. w \<noteq> []) (splitOn CHR ''&'' q)),
                   href = ''https://'' @ h @ ''/'' @ (if q = [] then [] else ''?'' @ q)\<rparr>
         else Inl ''TypeError: Invalid URL'')"

text \<open>A registry with one integration per provider type; only github.com has a GitHub config.\<close>

definition demoIntegrations :: ScmIntegrationRegistry where
  "demoIntegrations =
     \<lparr>byHost = (\<lambda>h.
         if h = ''github.com'' then Some ''github''
         else if h = ''gitlab.com'' then Some ''gitlab''
         else if h = ''www.bitbucket.org'' then Some ''bitbucket''
         else if h = ''gerrit.example.com'' then Some ''gerrit''
         else None),
       github_byHost = (\<lambda>h.
         if h = ''github.com'' then Some \<lparr>apiBaseUrl = Some ''https://api.github.com''\<rparr>
         else None)\<rparr>"

text \<open>A credentials provider that knows no token.\<close>

definition noCredentials :: GithubCredentialsProvider where
  "noCredentials target = Inr None"

text \<open>\<^verbatim>\<open>DefaultGithubCredentialsProvider.fromIntegrations\<close>, for a registry without credentials.\<close>

definition defaultNoCredentials :: "ScmIntegrationRegistry \<Rightarrow> GithubCredentialsProvider" where
  "defaultNoCredentials registry = noCredentials"

text \<open>
  A workspace \<^verbatim>\<open>/ws\<close> holding a regular file, an executable file, a directory, a link
  whose target is missing, a link to the regular file, and a link whose target cannot be
  examined (\<^verbatim>\<open>EACCES\<close>). Modes are those \<^verbatim>\<open>lstat\<close> reports: \<^verbatim>\<open>0o100644 = 33188\<close>,
  \<^verbatim>\<open>0o100755 = 33261\<close>, \<^verbatim>\<open>0o40755 = 16877\<close>, \<^verbatim>\<open>0o120777 = 41471\<close>.
\<close>

definition demoEntries :: "Entry list" where
  "demoEntries =
     [\<lparr>dirent = RegularFile, path = ''README.md'', stats = Some \<lparr>mode = 33188\<rparr>\<rparr>,
      \<lparr>dirent = Directory, path = ''src'', stats = Some \<lparr>mode = 16877\<rparr>\<rparr>,
      \<lparr>dirent = SymbolicLink, path = ''broken'', stats = Some \<lparr>mode = 41471\<rparr>\<rparr>,
      \<lparr>dirent = SymbolicLink, path = ''alias'', stats = Some \<lparr>mode = 41471\<rparr>\<rparr>,
      \<lparr>dirent = SymbolicLink, path = ''locked'', stats = Some \<lparr>mode = 41471\<rparr>\<rparr>,
      \<lparr>dirent = RegularFile, path = ''run.sh'', stats = Some \<lparr>mode = 33261\<rparr>\<rparr>]"

definition demoResolve :: "string \<Rightarrow> string \<Rightarrow> error + string" where
  "demoResolve base p =
     (if take 3 p = ''../''
      then Inl (NotAllowedError
        ''Relative path is not allowed to refer to a directory outside its parent'')
      else Inr (base @ ''/'' @ p))"

definition demoFS :: FileSystem where
  "demoFS =
     \<lparr>globby = (\<lambda>patterns options. Inr demoEntries),
      resolveSafeChildPath = demoResolve,
      fs_stat = (\<lambda>p.
        if p = ''/ws/README.md'' \<or> p = ''/ws/alias'' then Inr \<lparr>mode = 33188\<rparr>
        else if p = ''/ws/run.sh'' then Inr \<lparr>mode = 33261\<rparr>
        else if p = ''/ws/src'' then Inr \<lparr>mode = 16877\<rparr>
        else if p = ''/ws/locked'' then Inl (SystemError ''EACCES'')
        else Inl (SystemError ''ENOENT'')),
      fs_readlink = (\<lambda>p.
        if p = ''/ws/broken'' then Inr [109, 105, 115, 115, 105, 110, 103]
        else if p = ''/ws/alias'' then Inr [82, 69, 65, 68, 77, 69, 46, 109, 100]
        else if p = ''/ws/locked'' then Inr [47, 114, 111, 111, 116]
        else Inl (SystemError ''EINVAL'')),
      fs_readFile = (\<lambda>p.
        if p = ''/ws/README.md'' then Inr [104, 105, 10]
        else if p = ''/ws/run.sh'' then Inr [35, 33]
        else Inl (SystemError ''ENOENT''))\<rparr>"

text \<open>The same workspace, listed in another order.\<close>

definition demoFS_reordered :: FileSystem where
  "demoFS_reordered = demoFS\<lparr>globby := (\<lambda>patterns options. Inr (rev demoEntries))\<rparr>"




section \<open>Properties\<close>

subsection \<open>Execute bits\<close>

lemma and_73_split: "(n::int) AND 73 = (n AND 2 ^ 0) OR (n AND 2 ^ 3) OR (n AND 2 ^ 6)"
proof -
  have "(73::int) = 2 ^ 0 OR 2 ^ 3 OR 2 ^ 6" by simp
  then show ?thesis by (simp only: bit.conj_disj_distrib)
qed

lemma and_73_zero: "((n::int) AND 73 = 0) = (\<not> bit n 0 \<and> \<not> bit n 3 \<and> \<not> bit n 6)"
  unfolding and_73_split or_eq_0_iff and_exp_eq_0_iff_not_bit by simp

lemma and_73_pos: "((n::int) AND 73 > 0) = (bit n 0 \<or> bit n 3 \<or> bit n 6)"
proof -
  have "0 \<le> n AND 73" by simp
  then have "(n AND 73 > 0) = (n AND 73 \<noteq> 0)" by linarith
  then show ?thesis using and_73_zero [of n] by blast
qed

text \<open>
  C6. \<open>isExecutable\<close> is true exactly for a defined mode in which the execute bit of the
  owner (bit 6, \<^verbatim>\<open>0o100\<close>), of the group (bit 3, \<^verbatim>\<open>0o010\<close>) or of the others (bit 0, \<^verbatim>\<open>0o001\<close>)
  is set. In particular it is false on \<^verbatim>\<open>0o644 = 420\<close>, true on \<^verbatim>\<open>0o755 = 493\<close> and false on
  \<^verbatim>\<open>undefined\<close>.
\<close>

theorem isExecutable_iff_execute_bit:
  "(isExecutable fileMode =
      (\<exists>m. fileMode = Some m \<and> (bit m 6 \<or> bit m 3 \<or> bit m 0)))
   \<and> isExecutable (Some 420) = False
   \<and> isExecutable (Some 493) = True
   \<and> isExecutable None = False"
proof -
  have general: "isExecutable fileMode =
      (\<exists>m. fileMode = Some m \<and> (bit m 6 \<or> bit m 3 \<or> bit m 0))"
  proof (cases fileMode)
    case None
    then show ?thesis by (simp add: isExecutable_def)
  next
    case (Some m)
    show ?thesis
    proof (cases "m = 0")
      case True
      with Some show ?thesis by (simp add: isExecutable_def)
    next
      case False
      with Some and_73_pos [of m] show ?thesis
        by (auto simp: isExecutable_def Let_def)
    qed
  qed
  have "isExecutable (Some 420) = False" by (simp add: isExecutable_def)
  moreover have "isExecutable (Some 493) = True" by (simp add: isExecutable_def)
  moreover have "isExecutable None = False" by (simp add: isExecutable_def)
  ultimately show ?thesis using general by blast
qed

subsection \<open>Repository URLs\<close>

lemma checkRequiredParams_ok:
  "(checkRequiredParams u ps = Inr ()) = list_all (present u) ps"
  by (induction ps) (auto simp: present_def falsy_def split: option.splits)

lemma checkRequiredParams_fails:
  "\<not> list_all (present u) ps \<Longrightarrow> \<exists>msg. checkRequiredParams u ps = Inl (InputError msg)"
  by (induction ps) (auto simp: present_def falsy_def split: option.splits)

lemma checkRequiredParams_cases:
  "checkRequiredParams u ps = Inr () \<and> list_all (present u) ps
   \<or> (\<exists>msg. checkRequiredParams u ps = Inl (InputError msg)) \<and> \<not> list_all (present u) ps"
  using checkRequiredParams_ok [of u ps] checkRequiredParams_fails [of u ps] by blast

lemma falsy_project: "falsy (searchParams_get u ''project'') = (\<not> present u ''project'')"
  by (simp add: falsy_def present_def split: option.splits)

lemma checkRequiredParams_InputError:
  "checkRequiredParams u ps = Inl e \<Longrightarrow> \<exists>msg. e = InputError msg"
  by (induction ps) (auto split: if_splits)

text \<open>
  C1. Let the URL parse and its host resolve to a provider type (a non-empty type
  string). Then \<open>parseRepoUrl\<close> returns the descriptor when every mandatory parameter of
  that provider is present, and fails with an \<open>InputError\<close> when one of them is absent.
  The mandatory parameters are those of \<open>mandatoryParams\<close>: for bitbucket project and
  repo, and workspace too when the host is \<^verbatim>\<open>www.bitbucket.org\<close>; for gitlab owner and repo
  unless project is present; for gerrit repo; for any other provider repo and owner.
  Present means that the parameter has a non-empty value.
\<close>

theorem parseRepoUrl_mandatory_params:
  assumes parsed: "URL_new (''https://'' @ s) = Inr u"
    and known: "byHost integ (url.host u) = Some ty"
    and named: "ty \<noteq> []"
  shows "(if \<forall>p \<in> set (mandatoryParams ty u). present u p
          then parseRepoUrl URL_new s integ =
                 Inr \<lparr>repo = searchParams_get u ''repo'', host = url.host u,
                      owner = searchParams_get u ''owner'',
                      organization = searchParams_get u ''organization'',
                      workspace = searchParams_get u ''workspace'',
                      project = searchParams_get u ''project''\<rparr>
          else \<exists>msg. parseRepoUrl URL_new s integ = Inl (InputError msg))"
proof -
  let ?spec = "\<lparr>repo = searchParams_get u ''repo'', host = url.host u,
                      owner = searchParams_get u ''owner'',
                      organization = searchParams_get u ''organization'',
                      workspace = searchParams_get u ''workspace'',
                      project = searchParams_get u ''project''\<rparr>"
  define checked where "checked =
     (if Some ty = Some ''bitbucket'' then
        (case (if url.host u = ''www.bitbucket.org''
               then checkRequiredParams u [''workspace'']
               else Inr ()) of
           Inl e \<Rightarrow> Inl e
         | Inr _ \<Rightarrow> checkRequiredParams u [''project'', ''repo''])
      else if Some ty = Some ''gitlab'' then
        (if falsy (searchParams_get u ''project'')
         then checkRequiredParams u [''owner'', ''repo'']
         else Inr ())
      else if Some ty = Some ''gerrit'' then
        checkRequiredParams u [''repo'']
      else checkRequiredParams u [''repo'', ''owner''])"
  have run: "parseRepoUrl URL_new s integ =
      (case checked of Inl e \<Rightarrow> Inl e | Inr _ \<Rightarrow> Inr ?spec)"
    using parsed known named by (simp add: parseRepoUrl_def Let_def falsy_def checked_def)
  have verdict: "checked = Inr () \<and> list_all (present u) (mandatoryParams ty u)
     \<or> (\<exists>msg. checked = Inl (InputError msg)) \<and> \<not> list_all (present u) (mandatoryParams ty u)"
  proof -
    consider (bb) "ty = ''bitbucket''" | (gl) "ty = ''gitlab''" | (ge) "ty = ''gerrit''"
      | (other) "ty \<noteq> ''bitbucket''" "ty \<noteq> ''gitlab''" "ty \<noteq> ''gerrit''" by blast
    then show ?thesis
    proof cases
      case bb
      show ?thesis
      proof (cases "url.host u = ''www.bitbucket.org''")
        case True
        have "checked = checkRequiredParams u [''workspace'', ''project'', ''repo'']"
          using bb True by (simp add: checked_def)
        moreover have "mandatoryParams ty u = [''workspace'', ''project'', ''repo'']"
          using bb True by (simp add: mandatoryParams_def)
        ultimately show ?thesis
          using checkRequiredParams_cases [of u "[''workspace'', ''project'', ''repo'']"] by simp
      next
        case False
        have "checked = checkRequiredParams u [''project'', ''repo'']"
          using bb False by (simp add: checked_def)
        moreover have "mandatoryParams ty u = [''project'', ''repo'']"
          using bb False by (simp add: mandatoryParams_def)
        ultimately show ?thesis
          using checkRequiredParams_cases [of u "[''project'', ''repo'']"] by simp
      qed
    next
      case gl
      show ?thesis
      proof (cases "present u ''project''")
        case True
        then show ?thesis using gl by (simp add: checked_def mandatoryParams_def falsy_project)
      next
        case False
        have "checked = checkRequiredParams u [''owner'', ''repo'']"
          using gl False by (simp add: checked_def falsy_project)
        moreover have "mandatoryParams ty u = [''owner'', ''repo'']"
          using gl False by (simp add: mandatoryParams_def)
        ultimately show ?thesis
          using checkRequiredParams_cases [of u "[''owner'', ''repo'']"] by simp
      qed
    next
      case ge
      have "checked = checkRequiredParams u [''repo'']"
        using ge by (simp add: checked_def)
      moreover have "mandatoryParams ty u = [''repo'']"
        using ge by (simp add: mandatoryParams_def)
      ultimately show ?thesis
        using checkRequiredParams_cases [of u "[''repo'']"] by simp
    next
      case other
      have "checked = checkRequiredParams u [''repo'', ''owner'']"
        using other by (simp add: checked_def)
      moreover have "mandatoryParams ty u = [''repo'', ''owner'']"
        using other by (simp add: mandatoryParams_def)
      ultimately show ?thesis
        using checkRequiredParams_cases [of u "[''repo'', ''owner'']"] by simp
    qed
  qed
  show ?thesis
    using verdict run by (auto simp: list_all_iff)
qed

lemma URL_simple_bitbucket_full:
  "URL_simple (''https://'' @ ''www.bitbucket.org?workspace=w&project=p&repo=r'') =
     Inr \<lparr>url.host = ''www.bitbucket.org'',
          searchParams = [(''workspace'', ''w''), (''project'', ''p''), (''repo'', ''r'')],
          href = ''https://www.bitbucket.org/?workspace=w&project=p&repo=r''\<rparr>"
  by (simp add: URL_simple_def keyValue_def)

lemma URL_simple_bitbucket_short:
  "URL_simple (''https://'' @ ''www.bitbucket.org?repo=x&project=y'') =
     Inr \<lparr>url.host = ''www.bitbucket.org'',
          searchParams = [(''repo'', ''x''), (''project'', ''y'')],
          href = ''https://www.bitbucket.org/?repo=x&project=y''\<rparr>"
  by (simp add: URL_simple_def keyValue_def)

lemma URL_simple_github:
  "URL_simple ''https://github.com?repo=x&owner=y'' =
     Inr \<lparr>url.host = ''github.com'',
          searchParams = [(''repo'', ''x''), (''owner'', ''y'')],
          href = ''https://github.com/?repo=x&owner=y''\<rparr>"
  by (simp add: URL_simple_def keyValue_def)

lemma URL_simple_gitlab:
  "URL_simple (''https://'' @ ''gitlab.com?project=123'') =
     Inr \<lparr>url.host = ''gitlab.com'',
          searchParams = [(''project'', ''123'')],
          href = ''https://gitlab.com/?project=123''\<rparr>"
  by (simp add: URL_simple_def keyValue_def)

theorem parseRepoUrl_mandatory_params_witness:
  "parseRepoUrl URL_simple ''www.bitbucket.org?workspace=w&project=p&repo=r'' demoIntegrations =
     Inr \<lparr>repo = Some ''r'', host = ''www.bitbucket.org'', owner = None,
          organization = None, workspace = Some ''w'', project = Some ''p''\<rparr>
   \<and> (\<exists>msg. parseRepoUrl URL_simple ''www.bitbucket.org?repo=x&project=y'' demoIntegrations =
          Inl (InputError msg))"
proof -
  have known: "byHost demoIntegrations ''www.bitbucket.org'' = Some ''bitbucket''"
    by (simp add: demoIntegrations_def)
  have "parseRepoUrl URL_simple ''www.bitbucket.org?workspace=w&project=p&repo=r''
          demoIntegrations =
        Inr \<lparr>repo = Some ''r'', host = ''www.bitbucket.org'', owner = None,
             organization = None, workspace = Some ''w'', project = Some ''p''\<rparr>"
    using parseRepoUrl_mandatory_params
      [where URL_new = URL_simple and integ = demoIntegrations and ty = "''bitbucket''",
       OF URL_simple_bitbucket_full] known
    by (simp add: mandatoryParams_def present_def searchParams_get_def)
  moreover have "\<exists>msg. parseRepoUrl URL_simple ''www.bitbucket.org?repo=x&project=y''
          demoIntegrations = Inl (InputError msg)"
    using parseRepoUrl_mandatory_params
      [where URL_new = URL_simple and integ = demoIntegrations and ty = "''bitbucket''",
       OF URL_simple_bitbucket_short] known
    by (simp add: mandatoryParams_def present_def searchParams_get_def)
  ultimately show ?thesis by blast
qed

text \<open>A parameter given with an empty value is reported missing.\<close>

lemma parseRepoUrl_empty_value:
  "parseRepoUrl URL_simple ''github.com?repo=&owner=y'' demoIntegrations =
     Inl (InputError
       ''Invalid repo URL passed to publisher: https://github.com/?repo=&owner=y, missing repo'')"
  by (simp add: parseRepoUrl_def URL_simple_def keyValue_def demoIntegrations_def Let_def
      falsy_def searchParams_get_def)

text \<open>
  C7. When the \<^verbatim>\<open>URL\<close> constructor parses \<^verbatim>\<open>https://github.com?repo=x&owner=y\<close> into the
  host \<^verbatim>\<open>github.com\<close> with the parameters repo = x and owner = y, and the registry resolves
  \<^verbatim>\<open>github.com\<close> to a provider type other than bitbucket, gitlab and gerrit,
  \<open>parseRepoUrl\<close> on \<^verbatim>\<open>github.com?repo=x&owner=y\<close> returns the descriptor with host
  \<^verbatim>\<open>github.com\<close>, repo x and owner y (and no other field).
\<close>

theorem parseRepoUrl_github_example:
  assumes parsed: "URL_new ''https://github.com?repo=x&owner=y'' = Inr u"
    and hostname: "url.host u = ''github.com''"
    and query: "searchParams u = [(''repo'', ''x''), (''owner'', ''y'')]"
    and known: "byHost integ ''github.com'' = Some ty"
    and named: "ty \<noteq> []"
    and other: "ty \<notin> {''bitbucket'', ''gitlab'', ''gerrit''}"
  shows "parseRepoUrl URL_new ''github.com?repo=x&owner=y'' integ =
           Inr \<lparr>repo = Some ''x'', host = ''github.com'', owner = Some ''y'',
                organization = None, workspace = None, project = None\<rparr>"
  using assms
  by (simp add: parseRepoUrl_def Let_def falsy_def searchParams_get_def)

theorem parseRepoUrl_github_example_witness:
  "parseRepoUrl URL_simple ''github.com?repo=x&owner=y'' demoIntegrations =
     Inr \<lparr>repo = Some ''x'', host = ''github.com'', owner = Some ''y'',
          organization = None, workspace = None, project = None\<rparr>"
  by (rule parseRepoUrl_github_example
        [where URL_new = URL_simple and ty = "''github''", OF URL_simple_github])
     (simp_all add: demoIntegrations_def)

text \<open>
  C10. For a host of provider type gitlab, a URL whose project parameter is present and
  whose repo parameter is missing is accepted, and the descriptor returned holds no repo:
  the field that \<^verbatim>\<open>RepoSpec\<close> declares a string is \<^verbatim>\<open>null\<close>.
\<close>

theorem parseRepoUrl_gitlab_null_repo:
  assumes parsed: "URL_new (''https://'' @ s) = Inr u"
    and known: "byHost integ (url.host u) = Some ''gitlab''"
    and proj: "present u ''project''"
    and norepo: "searchParams_get u ''repo'' = None"
  shows "\<exists>r. parseRepoUrl URL_new s integ = Inr r \<and> repo r = None"
  using assms
  by (simp add: parseRepoUrl_def Let_def falsy_def present_def split: option.splits)

theorem parseRepoUrl_gitlab_null_repo_witness:
  "\<exists>r. parseRepoUrl URL_simple ''gitlab.com?project=123'' demoIntegrations = Inr r
       \<and> repo r = None"
  by (rule parseRepoUrl_gitlab_null_repo [where URL_new = URL_simple, OF URL_simple_gitlab])
     (simp_all add: demoIntegrations_def present_def searchParams_get_def)

subsection \<open>Octokit options\<close>

lemma parseRepoUrl_InputError:
  assumes "parseRepoUrl URL_new s integ = Inl e"
  shows "\<exists>msg. e = InputError msg"
proof (cases "URL_new (''https://'' @ s)")
  case (Inl err)
  with assms show ?thesis by (auto simp: parseRepoUrl_def)
next
  case (Inr u)
  show ?thesis
  proof (cases "falsy (byHost integ (url.host u))")
    case True
    with Inr assms show ?thesis by (auto simp: parseRepoUrl_def Let_def)
  next
    case False
    with Inr assms show ?thesis
      by (auto simp: parseRepoUrl_def Let_def split: sum.splits if_splits
          dest: checkRequiredParams_InputError)
  qed
qed

text \<open>
  C4, as the code has it. In every call that supplies a non-empty token the credentials
  provider is never consulted. When moreover \<open>parseRepoUrl\<close> accepts the repo URL, the
  descriptor names an owner and the registry has a GitHub configuration for the host, the
  call returns options with that token as \<open>auth\<close>, the API base URL of the configuration,
  the preview \<^verbatim>\<open>nebula-preview\<close> and a request timeout of 60000 ms. When one of the three
  checks fails, the call fails with an \<open>InputError\<close> although a token was supplied.
\<close>

theorem getOctokitOptions_token_short_circuit:
  assumes supplied: "token args = Some t" and nonempty: "t \<noteq> []"
  shows "snd (getOctokitOptions URL_new enc dflt args) = []
     \<and> (\<forall>spec cfg.
           parseRepoUrl URL_new (repoUrl args) (integrations args) = Inr spec \<longrightarrow>
           \<not> falsy (owner spec) \<longrightarrow>
           github_byHost (integrations args) (RepoSpec.host spec) = Some cfg \<longrightarrow>
           fst (getOctokitOptions URL_new enc dflt args) =
             Inr \<lparr>auth = t, baseUrl = apiBaseUrl cfg, previews = [''nebula-preview''],
                  request = Some \<lparr>timeout = 60000\<rparr>\<rparr>)
     \<and> ((\<forall>spec cfg.
            \<not> (parseRepoUrl URL_new (repoUrl args) (integrations args) = Inr spec
               \<and> \<not> falsy (owner spec)
               \<and> github_byHost (integrations args) (RepoSpec.host spec) = Some cfg)) \<longrightarrow>
          (\<exists>msg. fst (getOctokitOptions URL_new enc dflt args) = Inl (InputError msg)))"
proof -
  have tok: "\<not> falsy (token args)" using supplied nonempty by (simp add: falsy_def)
  show ?thesis
  proof (cases "parseRepoUrl URL_new (repoUrl args) (integrations args)")
    case (Inl e)
    then obtain msg where "e = InputError msg" using parseRepoUrl_InputError by blast
    with Inl show ?thesis by (simp add: getOctokitOptions_def)
  next
    case (Inr spec)
    show ?thesis
    proof (cases "falsy (owner spec)")
      case True
      with Inr show ?thesis by (simp add: getOctokitOptions_def Let_def)
    next
      case False
      show ?thesis
      proof (cases "github_byHost (integrations args) (RepoSpec.host spec)")
        case None
        with Inr False show ?thesis by (simp add: getOctokitOptions_def Let_def)
      next
        case (Some cfg)
        with Inr False tok supplied show ?thesis
          by (simp add: getOctokitOptions_def Let_def DEFAULT_TIMEOUT_MS_def)
      qed
    qed
  qed
qed

lemma parse_github_demo:
  "parseRepoUrl URL_simple ''github.com?repo=x&owner=y'' demoIntegrations =
     Inr \<lparr>repo = Some ''x'', host = ''github.com'', owner = Some ''y'',
          organization = None, workspace = None, project = None\<rparr>"
  by (simp add: parseRepoUrl_def URL_simple_def keyValue_def demoIntegrations_def Let_def
      falsy_def searchParams_get_def)

theorem getOctokitOptions_token_short_circuit_witness:
  "getOctokitOptions URL_simple id defaultNoCredentials
     \<lparr>integrations = demoIntegrations, credentialsProvider = None,
      token = Some ''t0ken'', repoUrl = ''github.com?repo=x&owner=y''\<rparr> =
   (Inr \<lparr>auth = ''t0ken'', baseUrl = Some ''https://api.github.com'',
         previews = [''nebula-preview''], request = Some \<lparr>timeout = 60000\<rparr>\<rparr>, [])"
proof -
  let ?args = "\<lparr>integrations = demoIntegrations, credentialsProvider = None,
      token = Some ''t0ken'', repoUrl = ''github.com?repo=x&owner=y''\<rparr>"
  let ?spec = "\<lparr>repo = Some ''x'', host = ''github.com'', owner = Some ''y'',
          organization = None, workspace = None, project = None\<rparr>"
  let ?cfg = "\<lparr>apiBaseUrl = Some ''https://api.github.com''\<rparr>"
  have "token ?args = Some ''t0ken''" and "''t0ken'' \<noteq> []" by simp_all
  note short = getOctokitOptions_token_short_circuit
    [where URL_new = URL_simple and enc = id and dflt = defaultNoCredentials, OF this]
  have parsed: "parseRepoUrl URL_simple (repoUrl ?args) (integrations ?args) = Inr ?spec"
    using parse_github_demo by simp
  have named: "\<not> falsy (owner ?spec)" by (simp add: falsy_def)
  have config: "github_byHost (integrations ?args) (RepoSpec.host ?spec) = Some ?cfg"
    by (simp add: demoIntegrations_def)
  from short have "snd (getOctokitOptions URL_simple id defaultNoCredentials ?args) = []"
    by blast
  moreover from short parsed named config
  have "fst (getOctokitOptions URL_simple id defaultNoCredentials ?args) =
       Inr \<lparr>auth = ''t0ken'', baseUrl = apiBaseUrl ?cfg,
         previews = [''nebula-preview''], request = Some \<lparr>timeout = 60000\<rparr>\<rparr>"
    by blast
  ultimately show ?thesis by (simp add: prod_eq_iff)
qed

text \<open>
  A call that supplies a token and still returns no options: the repo URL names no owner,
  so \<open>parseRepoUrl\<close> rejects it before the token is looked at.
\<close>

theorem getOctokitOptions_token_counterexample:
  "token \<lparr>integrations = demoIntegrations, credentialsProvider = None,
      token = Some ''t0ken'', repoUrl = ''github.com?repo=x''\<rparr> = Some ''t0ken''
   \<and> getOctokitOptions URL_simple id defaultNoCredentials
     \<lparr>integrations = demoIntegrations, credentialsProvider = None,
      token = Some ''t0ken'', repoUrl = ''github.com?repo=x''\<rparr> =
   (Inl (InputError
      ''Invalid repo URL passed to publisher: https://github.com/?repo=x, missing owner''), [])"
  by (simp add: getOctokitOptions_def parseRepoUrl_def URL_simple_def keyValue_def
      demoIntegrations_def Let_def falsy_def searchParams_get_def)

subsection \<open>Promises and the asynchronous filter\<close>

lemma rejections_Nil_iff: "(rejections ps = []) = (ps = map Inr (fulfilments ps))"
  by (induction ps rule: rejections.induct) auto

lemma rejections_map_Inr: "rejections (map Inr vs) = []"
  by (induction vs) auto

lemma fulfilments_map_Inr: "fulfilments (map Inr vs) = vs"
  by (induction vs) auto


lemma Promise_all_Inr_iff: "(Promise_all c ps = Inr vs) = (ps = map Inr vs)"
proof
  assume "Promise_all c ps = Inr vs"
  then have "rejections ps = []" and "fulfilments ps = vs"
    by (auto simp: Promise_all_def split: list.splits)
  then show "ps = map Inr vs" using rejections_Nil_iff [of ps] by simp
next
  assume "ps = map Inr vs"
  then show "Promise_all c ps = Inr vs"
    by (simp add: Promise_all_def rejections_map_Inr fulfilments_map_Inr)
qed



lemma filter_by_index:
  "map (\<lambda>i. xs ! i) (filter (\<lambda>i. map P xs ! i) [0..<length xs]) = filter P xs"
proof (induction xs rule: rev_induct)
  case Nil
  show ?case by simp
next
  case (snoc x xs)
  have "filter (\<lambda>i. map P (xs @ [x]) ! i) [0..<length xs] =
        filter (\<lambda>i. map P xs ! i) [0..<length xs]"
    by (rule filter_cong) (auto simp: nth_append)
  moreover have "map (\<lambda>i. (xs @ [x]) ! i) (filter (\<lambda>i. map P xs ! i) [0..<length xs]) =
        map (\<lambda>i. xs ! i) (filter (\<lambda>i. map P xs ! i) [0..<length xs])"
    by (rule map_cong) (auto simp: nth_append)
  ultimately show ?case using snoc.IH by (simp add: nth_append)
qed

lemma map_eq_map_Inr:
  "(map f xs = map Inr bs) = ((\<forall>x \<in> set xs. \<exists>b. f x = Inr b) \<and> bs = map (\<lambda>x. f x = Inr True) xs)"
proof (induction xs arbitrary: bs)
  case Nil
  show ?case by auto
next
  case (Cons x xs)
  show ?case
  proof (cases bs)
    case Nil
    then show ?thesis by auto
  next
    case (Cons b bs')
    then show ?thesis using Cons.IH [of bs'] by auto
  qed
qed

lemma asyncFilter_Inr_iff:
  "(asyncFilter c xs cb = Inr ys) =
     ((\<forall>x \<in> set xs. \<exists>b. cb x = Inr b) \<and> ys = filter (\<lambda>x. cb x = Inr True) xs)"
proof (cases "Promise_all c (map cb xs)")
  case (Inl e)
  then have "\<not> (\<exists>bs. map cb xs = map Inr bs)"
    using Promise_all_Inr_iff [of c "map cb xs"] by auto
  then have "\<not> (\<forall>x \<in> set xs. \<exists>b. cb x = Inr b)"
    using map_eq_map_Inr [of cb xs] by blast
  with Inl show ?thesis by (simp add: asyncFilter_def)
next
  case (Inr bs)
  then have "map cb xs = map Inr bs" by (simp add: Promise_all_Inr_iff)
  then have ok: "\<forall>x \<in> set xs. \<exists>b. cb x = Inr b"
    and bs: "bs = map (\<lambda>x. cb x = Inr True) xs"
    using map_eq_map_Inr [of cb xs bs] by blast+
  have "asyncFilter c xs cb = Inr (filter (\<lambda>x. cb x = Inr True) xs)"
    using Inr by (simp add: asyncFilter_def bs filter_by_index)
  with ok show ?thesis by auto
qed


subsection \<open>Directory snapshots\<close>

lemma validEntry_True: "(validEntry fs src e = Inr True) = retained fs src e"
  by (simp add: validEntry_def retained_def targetAbsent_def split: sum.splits)

lemma validEntry_Inl:
  "(validEntry fs src e = Inl err) =
     (isSymbolicLink (dirent e) \<and> resolveSafeChildPath fs src (Entry.path e) = Inl err)"
  by (auto simp: validEntry_def isDirectory_def isSymbolicLink_def split: sum.splits)

lemma validEntry_settles:
  "(\<exists>b. validEntry fs src e = Inr b) =
     (isSymbolicLink (dirent e) \<longrightarrow> (\<exists>p. resolveSafeChildPath fs src (Entry.path e) = Inr p))"
proof -
  have "(\<exists>b. validEntry fs src e = Inr b) = (\<not> (\<exists>err. validEntry fs src e = Inl err))"
    by (cases "validEntry fs src e") auto
  also have "\<dots> = (isSymbolicLink (dirent e) \<longrightarrow>
      \<not> (\<exists>err. resolveSafeChildPath fs src (Entry.path e) = Inl err))"
    by (simp add: validEntry_Inl)
  also have "\<dots> = (isSymbolicLink (dirent e) \<longrightarrow>
      (\<exists>p. resolveSafeChildPath fs src (Entry.path e) = Inr p))"
    by (cases "resolveSafeChildPath fs src (Entry.path e)") auto
  finally show ?thesis .
qed

lemma serializeEntry_bytesOf:
  "serializeEntry fs src e =
     (case bytesOf fs src e of Inl err \<Rightarrow> Inl err | Inr b \<Rightarrow> Inr (recordOf fs src e))"
  by (simp add: serializeEntry_def limiter_def bytesOf_def recordOf_def split: sum.splits)

lemma serializeEntry_Inr_iff:
  "(serializeEntry fs src e = Inr r) =
     ((\<exists>b. bytesOf fs src e = Inr b) \<and> r = recordOf fs src e)"
  by (auto simp: serializeEntry_bytesOf split: sum.splits)

lemma map_serializeEntry:
  "(map (serializeEntry fs src) xs = map Inr rs) =
     ((\<forall>x \<in> set xs. \<exists>b. bytesOf fs src x = Inr b) \<and> rs = map (recordOf fs src) xs)"
proof (induction xs arbitrary: rs)
  case Nil
  show ?case by auto
next
  case (Cons x xs)
  show ?case
  proof (cases rs)
    case Nil
    then show ?thesis by auto
  next
    case (Cons r rs')
    then show ?thesis using Cons.IH [of rs'] by (auto simp: serializeEntry_Inr_iff)
  qed
qed

lemma serializeDirectoryContents_Inr_iff:
  assumes "globbed fs src opts = Inr es"
  shows "(serializeDirectoryContents c fs src opts = Inr rs) =
     ((\<forall>e \<in> set es. isSymbolicLink (dirent e) \<longrightarrow>
          (\<exists>p. resolveSafeChildPath fs src (Entry.path e) = Inr p))
      \<and> (\<forall>e \<in> set es. retained fs src e \<longrightarrow> (\<exists>b. bytesOf fs src e = Inr b))
      \<and> rs = map (recordOf fs src) (filter (retained fs src) es))"
proof (cases "asyncFilter c es (validEntry fs src)")
  case (Inl err)
  then have "\<not> (\<forall>e \<in> set es. \<exists>b. validEntry fs src e = Inr b)"
    using asyncFilter_Inr_iff [of c es "validEntry fs src"] by auto
  then have "\<not> (\<forall>e \<in> set es. isSymbolicLink (dirent e) \<longrightarrow>
          (\<exists>p. resolveSafeChildPath fs src (Entry.path e) = Inr p))"
    by (simp add: validEntry_settles)
  with Inl assms show ?thesis by (simp add: serializeDirectoryContents_def)
next
  case (Inr valid)
  then have settles: "\<forall>e \<in> set es. \<exists>b. validEntry fs src e = Inr b"
    and valid: "valid = filter (retained fs src) es"
    using asyncFilter_Inr_iff [of c es "validEntry fs src" valid]
    by (simp_all add: validEntry_True)
  from settles have links: "\<forall>e \<in> set es. isSymbolicLink (dirent e) \<longrightarrow>
          (\<exists>p. resolveSafeChildPath fs src (Entry.path e) = Inr p)"
    by (simp add: validEntry_settles)
  have "(serializeDirectoryContents c fs src opts = Inr rs) =
        (map (serializeEntry fs src) valid = map Inr rs)"
    using assms Inr by (simp add: serializeDirectoryContents_def Promise_all_Inr_iff)
  also have "\<dots> = ((\<forall>x \<in> set valid. \<exists>b. bytesOf fs src x = Inr b)
      \<and> rs = map (recordOf fs src) valid)"
    by (rule map_serializeEntry)
  finally show ?thesis using links by (auto simp: valid)
qed

lemma recordOf_fields:
  assumes "bytesOf fs src e = Inr b"
  shows "SerializedFile.path (recordOf fs src e) = Entry.path e
     \<and> bytesOf fs src e = Inr (content (recordOf fs src e))
     \<and> symlink (recordOf fs src e) = isSymbolicLink (dirent e)
     \<and> executable (recordOf fs src e) = isExecutable (map_option mode (Entry.stats e))"
  using assms by (simp add: recordOf_def)

lemma list_all2_recordOf:
  assumes "\<forall>e \<in> set xs. \<exists>b. bytesOf fs src e = Inr b"
  shows "list_all2 (\<lambda>e r.
          SerializedFile.path r = Entry.path e
          \<and> bytesOf fs src e = Inr (content r)
          \<and> symlink r = isSymbolicLink (dirent e)
          \<and> executable r = isExecutable (map_option mode (Entry.stats e)))
        xs (map (recordOf fs src) xs)"
  using assms
proof (induction xs)
  case Nil
  show ?case by simp
next
  case (Cons x xs)
  then obtain b where "bytesOf fs src x = Inr b" by auto
  from recordOf_fields [OF this] Cons show ?case by simp
qed

lemma retained_link:
  assumes "isSymbolicLink (dirent e)"
    and "resolveSafeChildPath fs src (Entry.path e) = Inr p"
  shows "retained fs src e = targetAbsent fs p"
  using assms by (simp add: retained_def isDirectory_def isSymbolicLink_def)


lemma bytesOf_Inl_cases:
  "bytesOf fs src e = Inl err \<Longrightarrow>
     resolveSafeChildPath fs src (Entry.path e) = Inl err
     \<or> (\<exists>p. resolveSafeChildPath fs src (Entry.path e) = Inr p)"
  by (simp add: bytesOf_def split: sum.splits)



lemma same_tree:
  assumes "resolveSafeChildPath fs' = resolveSafeChildPath fs"
    and "fs_stat fs' = fs_stat fs"
    and "fs_readlink fs' = fs_readlink fs"
    and "fs_readFile fs' = fs_readFile fs"
  shows "retained fs' src = retained fs src"
    and "bytesOf fs' src = bytesOf fs src"
    and "recordOf fs' src = recordOf fs src"
proof -
  have "targetAbsent fs' = targetAbsent fs"
    by (rule ext) (simp add: targetAbsent_def assms)
  then show "retained fs' src = retained fs src"
    by (intro ext) (simp add: retained_def assms split: sum.splits)
  show bytes: "bytesOf fs' src = bytesOf fs src"
    by (rule ext) (simp add: bytesOf_def assms split: sum.splits)
  show "recordOf fs' src = recordOf fs src"
    by (rule ext) (simp add: recordOf_def bytes)
qed


lemma demo_links:
  "\<forall>e \<in> set demoEntries. isSymbolicLink (dirent e) \<longrightarrow>
     (\<exists>p. resolveSafeChildPath demoFS ''/ws'' (Entry.path e) = Inr p)"
  by (simp add: demoEntries_def demoFS_def demoResolve_def)

lemma demo_reads:
  "\<forall>e \<in> set demoEntries. retained demoFS ''/ws'' e \<longrightarrow> (\<exists>b. bytesOf demoFS ''/ws'' e = Inr b)"
  by (simp add: demoEntries_def retained_def demoFS_def demoResolve_def targetAbsent_def
      isDirectory_def isSymbolicLink_def bytesOf_def)

lemma globbed_demoFS: "globbed demoFS src opts = Inr demoEntries"
  by (simp add: globbed_def demoFS_def)

lemma retained_demo:
  "filter (retained demoFS ''/ws'') demoEntries =
     [\<lparr>dirent = RegularFile, path = ''README.md'', stats = Some \<lparr>mode = 33188\<rparr>\<rparr>,
      \<lparr>dirent = SymbolicLink, path = ''broken'', stats = Some \<lparr>mode = 41471\<rparr>\<rparr>,
      \<lparr>dirent = RegularFile, path = ''run.sh'', stats = Some \<lparr>mode = 33261\<rparr>\<rparr>]"
  by (simp add: demoEntries_def retained_def demoFS_def demoResolve_def targetAbsent_def
      isDirectory_def isSymbolicLink_def)

lemma demo_run:
  "serializeDirectoryContents c demoFS ''/ws'' None =
     Inr [\<lparr>path = ''README.md'', content = [104, 105, 10], executable = False, symlink = False\<rparr>,
          \<lparr>path = ''broken'', content = [109, 105, 115, 115, 105, 110, 103],
           executable = True, symlink = True\<rparr>,
          \<lparr>path = ''run.sh'', content = [35, 33], executable = True, symlink = False\<rparr>]"
proof -
  have "serializeDirectoryContents c demoFS ''/ws'' None =
        Inr (map (recordOf demoFS ''/ws'') (filter (retained demoFS ''/ws'') demoEntries))"
    using demo_links demo_reads
    by (simp only: serializeDirectoryContents_Inr_iff [OF globbed_demoFS] simp_thms)
  also have "map (recordOf demoFS ''/ws'') (filter (retained demoFS ''/ws'') demoEntries) =
     [\<lparr>path = ''README.md'', content = [104, 105, 10], executable = False, symlink = False\<rparr>,
      \<lparr>path = ''broken'', content = [109, 105, 115, 115, 105, 110, 103],
       executable = True, symlink = True\<rparr>,
      \<lparr>path = ''run.sh'', content = [35, 33], executable = True, symlink = False\<rparr>]"
    unfolding retained_demo
    by (simp add: recordOf_def bytesOf_def demoFS_def demoResolve_def
        isSymbolicLink_def isExecutable_def)
  finally show ?thesis .
qed

lemma globbed_reordered: "globbed demoFS_reordered src opts = Inr (rev demoEntries)"
  by (simp add: globbed_def demoFS_reordered_def demoFS_def)

lemma reordered_unchanged:
  "resolveSafeChildPath demoFS_reordered = resolveSafeChildPath demoFS"
  "fs_stat demoFS_reordered = fs_stat demoFS"
  "fs_readlink demoFS_reordered = fs_readlink demoFS"
  "fs_readFile demoFS_reordered = fs_readFile demoFS"
  by (simp_all add: demoFS_reordered_def)

lemma demo_run_reordered:
  "serializeDirectoryContents c demoFS_reordered ''/ws'' None =
     Inr [\<lparr>path = ''run.sh'', content = [35, 33], executable = True, symlink = False\<rparr>,
          \<lparr>path = ''broken'', content = [109, 105, 115, 115, 105, 110, 103],
           executable = True, symlink = True\<rparr>,
          \<lparr>path = ''README.md'', content = [104, 105, 10], executable = False, symlink = False\<rparr>]"
proof -
  have "serializeDirectoryContents c demoFS_reordered ''/ws'' None =
        Inr (map (recordOf demoFS ''/ws'') (filter (retained demoFS ''/ws'') (rev demoEntries)))"
    using demo_links demo_reads
    by (simp add: serializeDirectoryContents_Inr_iff [OF globbed_reordered]
        same_tree [OF reordered_unchanged] reordered_unchanged)
  also have "filter (retained demoFS ''/ws'') (rev demoEntries) =
        rev (filter (retained demoFS ''/ws'') demoEntries)"
    by (simp add: rev_filter)
  also have "map (recordOf demoFS ''/ws'') (rev (filter (retained demoFS ''/ws'') demoEntries)) =
     [\<lparr>path = ''run.sh'', content = [35, 33], executable = True, symlink = False\<rparr>,
      \<lparr>path = ''broken'', content = [109, 105, 115, 115, 105, 110, 103],
       executable = True, symlink = True\<rparr>,
      \<lparr>path = ''README.md'', content = [104, 105, 10], executable = False, symlink = False\<rparr>]"
    unfolding retained_demo
    by (simp add: recordOf_def bytesOf_def demoFS_def demoResolve_def
        isSymbolicLink_def isExecutable_def)
  finally show ?thesis .
qed

text \<open>
  C2. Let the walk list the entries \<open>es\<close> of a tree, let every symbolic link among them
  have a safe path, and let the bytes of every retained entry be readable. Then
  \<open>serializeDirectoryContents\<close> returns, in the order of the walk, exactly one record for
  each retained entry and nothing else: the path of the entry, the bytes read for it (the
  raw target of a symbolic link, the content of a file), the symlink flag of its type and
  the executable flag of its mode. Every entry that is neither a directory nor a symbolic
  link is retained, and so is every symbolic link whose target is absent; no directory
  is retained, and no symbolic link whose target exists.
\<close>

theorem serializeDirectoryContents_result:
  assumes listing: "globbed fs src opts = Inr es"
    and links: "\<forall>e \<in> set es. isSymbolicLink (dirent e) \<longrightarrow>
          (\<exists>p. resolveSafeChildPath fs src (Entry.path e) = Inr p)"
    and reads: "\<forall>e \<in> set es. retained fs src e \<longrightarrow> (\<exists>b. bytesOf fs src e = Inr b)"
  shows "(\<exists>rs. serializeDirectoryContents c fs src opts = Inr rs
       \<and> list_all2 (\<lambda>e r.
            SerializedFile.path r = Entry.path e
            \<and> bytesOf fs src e = Inr (content r)
            \<and> symlink r = isSymbolicLink (dirent e)
            \<and> executable r = isExecutable (map_option mode (Entry.stats e)))
          (filter (retained fs src) es) rs)
     \<and> (\<forall>e \<in> set es.
           \<not> isDirectory (dirent e) \<and> \<not> isSymbolicLink (dirent e) \<longrightarrow> retained fs src e)
     \<and> (\<forall>e \<in> set es. \<forall>p.
           isSymbolicLink (dirent e) \<and> resolveSafeChildPath fs src (Entry.path e) = Inr p
             \<and> targetAbsent fs p \<longrightarrow> retained fs src e)
     \<and> (\<forall>e \<in> set es. isDirectory (dirent e) \<longrightarrow> \<not> retained fs src e)
     \<and> (\<forall>e \<in> set es. \<forall>p.
           isSymbolicLink (dirent e) \<and> resolveSafeChildPath fs src (Entry.path e) = Inr p
             \<and> targetExists fs p \<longrightarrow> \<not> retained fs src e)"
proof -
  let ?kept = "filter (retained fs src) es"
  have run: "serializeDirectoryContents c fs src opts = Inr (map (recordOf fs src) ?kept)"
    using links reads
    by (simp only: serializeDirectoryContents_Inr_iff [OF listing] simp_thms)
  have "\<forall>e \<in> set ?kept. \<exists>b. bytesOf fs src e = Inr b"
    using reads by simp
  then have "list_all2 (\<lambda>e r.
          SerializedFile.path r = Entry.path e
          \<and> bytesOf fs src e = Inr (content r)
          \<and> symlink r = isSymbolicLink (dirent e)
          \<and> executable r = isExecutable (map_option mode (Entry.stats e)))
        ?kept (map (recordOf fs src) ?kept)"
    by (rule list_all2_recordOf)
  with run have result: "\<exists>rs. serializeDirectoryContents c fs src opts = Inr rs
       \<and> list_all2 (\<lambda>e r.
            SerializedFile.path r = Entry.path e
            \<and> bytesOf fs src e = Inr (content r)
            \<and> symlink r = isSymbolicLink (dirent e)
            \<and> executable r = isExecutable (map_option mode (Entry.stats e)))
          ?kept rs"
    by blast
  have files: "retained fs src e"
    if "\<not> isDirectory (dirent e) \<and> \<not> isSymbolicLink (dirent e)" for e
    using that by (simp add: retained_def)
  have dangling: "retained fs src e"
    if "isSymbolicLink (dirent e) \<and> resolveSafeChildPath fs src (Entry.path e) = Inr p
          \<and> targetAbsent fs p" for e p
    using that retained_link [of e fs src p] by simp
  have dirs: "\<not> retained fs src e" if "isDirectory (dirent e)" for e
    using that by (simp add: retained_def)
  have live: "\<not> retained fs src e"
    if "isSymbolicLink (dirent e) \<and> resolveSafeChildPath fs src (Entry.path e) = Inr p
          \<and> targetExists fs p" for e p
    using that retained_link [of e fs src p]
    by (auto simp: targetExists_def targetAbsent_def split: sum.splits)
  from result files dangling dirs live show ?thesis by blast
qed

theorem serializeDirectoryContents_result_witness:
  "serializeDirectoryContents hd demoFS ''/ws'' None =
     Inr [\<lparr>path = ''README.md'', content = [104, 105, 10], executable = False, symlink = False\<rparr>,
          \<lparr>path = ''broken'', content = [109, 105, 115, 115, 105, 110, 103],
           executable = True, symlink = True\<rparr>,
          \<lparr>path = ''run.sh'', content = [35, 33], executable = True, symlink = False\<rparr>]"
proof -
  from serializeDirectoryContents_result [where fs = demoFS and src = "''/ws''" and opts = None
      and c = hd and es = demoEntries, OF globbed_demoFS demo_links demo_reads, THEN conjunct1]
  obtain rs where run: "serializeDirectoryContents hd demoFS ''/ws'' None = Inr rs"
    and shape: "list_all2 (\<lambda>e r.
          SerializedFile.path r = Entry.path e
          \<and> bytesOf demoFS ''/ws'' e = Inr (content r)
          \<and> symlink r = isSymbolicLink (dirent e)
          \<and> executable r = isExecutable (map_option mode (Entry.stats e)))
        (filter (retained demoFS ''/ws'') demoEntries) rs"
    by blast
  from shape have "rs =
     [\<lparr>path = ''README.md'', content = [104, 105, 10], executable = False, symlink = False\<rparr>,
      \<lparr>path = ''broken'', content = [109, 105, 115, 115, 105, 110, 103],
       executable = True, symlink = True\<rparr>,
      \<lparr>path = ''run.sh'', content = [35, 33], executable = True, symlink = False\<rparr>]"
    unfolding retained_demo
    by (auto simp: list_all2_Cons1 bytesOf_def demoFS_def demoResolve_def isSymbolicLink_def
        isExecutable_def)
  with run show ?thesis by simp
qed

text \<open>
  C3. For a symbolic link with a safe path on which \<^verbatim>\<open>stat\<close> fails, the existence check
  raises nothing: it answers true when the failure is an error with code \<^verbatim>\<open>ENOENT\<close> and
  false for any other failure. Hence a successful run holds a symlink record for the path
  of that link exactly when the code was \<^verbatim>\<open>ENOENT\<close>, and on a tree with that link alone a
  failure other than \<^verbatim>\<open>ENOENT\<close> gives the empty result, not an error.
\<close>

theorem stat_failure_in_existence_check:
  assumes link: "isSymbolicLink (dirent e)"
    and safe: "resolveSafeChildPath fs src (Entry.path e) = Inr p"
    and failed: "fs_stat fs p = Inl err"
  shows "validEntry fs src e = Inr (isError err \<and> code err = Some ''ENOENT'')
     \<and> (\<forall>c opts es rs.
           globbed fs src opts = Inr es \<longrightarrow> e \<in> set es \<longrightarrow>
           serializeDirectoryContents c fs src opts = Inr rs \<longrightarrow>
           (\<exists>r \<in> set rs. SerializedFile.path r = Entry.path e \<and> symlink r) =
             (isError err \<and> code err = Some ''ENOENT''))
     \<and> (\<forall>c opts.
           globbed fs src opts = Inr [e] \<longrightarrow> \<not> (isError err \<and> code err = Some ''ENOENT'') \<longrightarrow>
           serializeDirectoryContents c fs src opts = Inr [])"
proof -
  let ?enoent = "isError err \<and> code err = Some ''ENOENT''"
  have absent: "targetAbsent fs p = ?enoent"
    using failed by (simp add: targetAbsent_def)
  have kept: "retained fs src e = ?enoent"
    using retained_link [OF link safe] absent by simp
  have callback: "validEntry fs src e = Inr ?enoent"
    using link safe failed by (simp add: validEntry_def isDirectory_def isSymbolicLink_def)
  have whole: "(\<exists>r \<in> set rs. SerializedFile.path r = Entry.path e \<and> symlink r) = ?enoent"
    if listing: "globbed fs src opts = Inr es" and member: "e \<in> set es"
      and run: "serializeDirectoryContents c fs src opts = Inr rs" for c opts es rs
  proof -
    from run have rs: "rs = map (recordOf fs src) (filter (retained fs src) es)"
      by (simp add: serializeDirectoryContents_Inr_iff [OF listing])
    show ?thesis
    proof
      assume "\<exists>r \<in> set rs. SerializedFile.path r = Entry.path e \<and> symlink r"
      then obtain e' where e': "e' \<in> set es" "retained fs src e'"
        and same: "Entry.path e' = Entry.path e" and link': "isSymbolicLink (dirent e')"
        by (auto simp: rs recordOf_def)
      from safe same have "resolveSafeChildPath fs src (Entry.path e') = Inr p" by simp
      from retained_link [OF link' this] e'(2) absent show ?enoent by simp
    next
      assume ?enoent
      with kept member have "recordOf fs src e \<in> set rs" by (simp add: rs)
      moreover have "SerializedFile.path (recordOf fs src e) = Entry.path e"
        and "symlink (recordOf fs src e)"
        using link by (simp_all add: recordOf_def)
      ultimately show "\<exists>r \<in> set rs. SerializedFile.path r = Entry.path e \<and> symlink r"
        by blast
    qed
  qed
  have alone: "serializeDirectoryContents c fs src opts = Inr []"
    if listing: "globbed fs src opts = Inr [e]" and other: "\<not> ?enoent" for c opts
    using kept other safe link
    by (simp add: serializeDirectoryContents_Inr_iff [OF listing])
  from callback whole alone show ?thesis by blast
qed

theorem stat_failure_in_existence_check_witness:
  "validEntry demoFS ''/ws''
     \<lparr>dirent = SymbolicLink, path = ''locked'', stats = Some \<lparr>mode = 41471\<rparr>\<rparr> = Inr False
   \<and> validEntry demoFS ''/ws''
     \<lparr>dirent = SymbolicLink, path = ''broken'', stats = Some \<lparr>mode = 41471\<rparr>\<rparr> = Inr True"
proof -
  have "validEntry demoFS ''/ws''
     \<lparr>dirent = SymbolicLink, path = ''locked'', stats = Some \<lparr>mode = 41471\<rparr>\<rparr> = Inr False"
    using stat_failure_in_existence_check
      [where fs = demoFS and src = "''/ws''" and p = "''/ws/locked''"
        and err = "SystemError ''EACCES''"
        and e = "\<lparr>dirent = SymbolicLink, path = ''locked'', stats = Some \<lparr>mode = 41471\<rparr>\<rparr>"]
    by (simp add: isSymbolicLink_def demoFS_def demoResolve_def)
  moreover have "validEntry demoFS ''/ws''
     \<lparr>dirent = SymbolicLink, path = ''broken'', stats = Some \<lparr>mode = 41471\<rparr>\<rparr> = Inr True"
    using stat_failure_in_existence_check
      [where fs = demoFS and src = "''/ws''" and p = "''/ws/broken''"
        and err = "SystemError ''ENOENT''"
        and e = "\<lparr>dirent = SymbolicLink, path = ''broken'', stats = Some \<lparr>mode = 41471\<rparr>\<rparr>"]
    by (simp add: isSymbolicLink_def demoFS_def demoResolve_def)
  ultimately show ?thesis by blast
qed










text \<open>
  C8. Two runs on an unchanged tree (the same safe paths, \<^verbatim>\<open>stat\<close> answers, link targets
  and file contents), whose walks list the same entries in any order and whose timings
  may differ: one succeeds exactly when the other does, and their results hold the same
  records with the same multiplicities; when the walks agree in order, so do the results.
\<close>

theorem serializeDirectoryContents_deterministic:
  assumes listing: "globbed fs src opts = Inr es"
    and listing': "globbed fs' src opts = Inr es'"
    and entries: "mset es' = mset es"
    and unchanged: "resolveSafeChildPath fs' = resolveSafeChildPath fs"
      "fs_stat fs' = fs_stat fs" "fs_readlink fs' = fs_readlink fs"
      "fs_readFile fs' = fs_readFile fs"
  shows "((\<exists>rs. serializeDirectoryContents c fs src opts = Inr rs) =
          (\<exists>rs'. serializeDirectoryContents c' fs' src opts = Inr rs'))
     \<and> (\<forall>rs rs'. serializeDirectoryContents c fs src opts = Inr rs \<longrightarrow>
           serializeDirectoryContents c' fs' src opts = Inr rs' \<longrightarrow>
           mset rs' = mset rs \<and> (es' = es \<longrightarrow> rs' = rs))"
proof -
  note same = same_tree [OF unchanged, of src]
  have sets: "set es' = set es" using entries by (rule mset_eq_setD)
  have success: "(\<exists>rs. serializeDirectoryContents c fs src opts = Inr rs) =
          (\<exists>rs'. serializeDirectoryContents c' fs' src opts = Inr rs')"
    by (simp add: serializeDirectoryContents_Inr_iff [OF listing]
        serializeDirectoryContents_Inr_iff [OF listing'] same sets unchanged)
  have equal: "mset rs' = mset rs \<and> (es' = es \<longrightarrow> rs' = rs)"
    if run: "serializeDirectoryContents c fs src opts = Inr rs"
      and run': "serializeDirectoryContents c' fs' src opts = Inr rs'" for rs rs'
  proof -
    from run have rs: "rs = map (recordOf fs src) (filter (retained fs src) es)"
      by (simp add: serializeDirectoryContents_Inr_iff [OF listing])
    from run' have rs': "rs' = map (recordOf fs src) (filter (retained fs src) es')"
      by (simp add: serializeDirectoryContents_Inr_iff [OF listing'] same)
    have "mset rs' = image_mset (recordOf fs src) (filter_mset (retained fs src) (mset es'))"
      by (simp add: rs')
    also have "\<dots> = mset rs" by (simp add: rs entries)
    finally show ?thesis by (simp add: rs rs')
  qed
  from success equal show ?thesis by blast
qed

theorem serializeDirectoryContents_deterministic_witness:
  "mset [\<lparr>path = ''run.sh'', content = [35, 33], executable = True, symlink = False\<rparr>,
         \<lparr>path = ''broken'', content = [109, 105, 115, 115, 105, 110, 103],
          executable = True, symlink = True\<rparr>,
         \<lparr>path = ''README.md'', content = [104, 105, 10], executable = False,
          symlink = False\<rparr>] =
   mset [\<lparr>path = ''README.md'', content = [104, 105, 10], executable = False, symlink = False\<rparr>,
         \<lparr>path = ''broken'', content = [109, 105, 115, 115, 105, 110, 103],
          executable = True, symlink = True\<rparr>,
         \<lparr>path = ''run.sh'', content = [35, 33], executable = True, symlink = False\<rparr>]
   \<and> (\<exists>rs'. serializeDirectoryContents last demoFS_reordered ''/ws'' None = Inr rs')"
proof -
  have entries: "mset (rev demoEntries) = mset demoEntries" by simp
  from serializeDirectoryContents_deterministic
    [where c = hd and c' = last and src = "''/ws''" and opts = None,
     OF globbed_demoFS globbed_reordered entries reordered_unchanged]
    demo_run [of hd] demo_run_reordered [of last]
  show ?thesis by blast
qed

end
